theory Spec2Isabelle
  imports Main
begin

text \<open>
  A model of \<^verbatim>\<open>src/index.ts\<close> of sfs-node: the functions \<^verbatim>\<open>urlToId\<close>, \<^verbatim>\<open>idToUrl\<close>,
  \<^verbatim>\<open>saveFile\<close> and \<^verbatim>\<open>deleteFileByHash\<close> that \<^verbatim>\<open>initFunctions\<close> returns, over an
  explicit disk and a list of the calls made to the outside. The configuration the
  functions close over is the parameter \<open>C\<close>; promises are run to completion, one
  call at a time.
\<close>

section \<open>JavaScript values, objects and strings\<close>

text \<open>
  The records of \<^verbatim>\<open>src/index.ts\<close> are open objects
  (\<^verbatim>\<open>sfsFile\<close> has an index signature \<^verbatim>\<open>[key: string]: any\<close>), so an object is
  a finite map from property names to values. A value is one of the primitives the
  code handles: an id is a string or a number (\<^verbatim>\<open>sfsFileId\<close>), sizes and timestamps
  are numbers, everything else is a string. Numbers are modelled as integers: ids,
  byte sizes and millisecond timestamps are integral, and the only property of
  numbers the code relies on is that \<open>0\<close> is falsy.
\<close>

datatype jsval = JUndefined | JNull | JBool bool | JNum int | JStr string

type_synonym jsobj = "string \<rightharpoonup> jsval"

text \<open>Truthiness, as \<^verbatim>\<open>||\<close>, \<^verbatim>\<open>!\<close> and \<^verbatim>\<open>if\<close> test it.\<close>

fun truthy :: "jsval \<Rightarrow> bool" where
  "truthy JUndefined = False"
| "truthy JNull = False"
| "truthy (JBool b) = b"
| "truthy (JNum n) = (n \<noteq> 0)"
| "truthy (JStr s) = (s \<noteq> [])"

text \<open>Property access \<^verbatim>\<open>obj.k\<close>: a missing property reads as \<^verbatim>\<open>undefined\<close>.\<close>

definition getprop :: "jsobj \<Rightarrow> string \<Rightarrow> jsval" where
  "getprop obj k = (case obj k of None \<Rightarrow> JUndefined | Some v \<Rightarrow> v)"

text \<open>Optional chaining \<^verbatim>\<open>obj?.k\<close> on an object that may be absent.\<close>

definition opt_prop :: "jsobj option \<Rightarrow> string \<Rightarrow> jsval" where
  "opt_prop obj k = (case obj of None \<Rightarrow> JUndefined | Some ob \<Rightarrow> getprop ob k)"

text \<open>
  Decimal digits of a natural number, and the string a value concatenates as
  (\<^verbatim>\<open>"" + v\<close>); for a number this is its decimal form, which is what JavaScript
  prints for integers below \<open>10\<^sup>2\<^sup>1\<close> in magnitude.
\<close>

fun digits :: "nat \<Rightarrow> string" where
  "digits n =
     (if n < 10 then [''0123456789'' ! n]
      else digits (n div 10) @ [''0123456789'' ! (n mod 10)])"

declare digits.simps [simp del]

fun toString :: "jsval \<Rightarrow> string" where
  "toString JUndefined = ''undefined''"
| "toString JNull = ''null''"
| "toString (JBool b) = (if b then ''true'' else ''false'')"
| "toString (JNum n) = (if n < 0 then CHR ''-'' # digits (nat (- n)) else digits (nat n))"
| "toString (JStr s) = s"

text \<open>\<^verbatim>\<open>s.endsWith(suf)\<close>.\<close>

definition endsWith :: "string \<Rightarrow> string \<Rightarrow> bool" where
  "endsWith s suf = (length suf \<le> length s \<and> drop (length s - length suf) s = suf)"

text \<open>
  \<^verbatim>\<open>s.replace(pat, rep)\<close> with a string pattern: the first occurrence of \<open>pat\<close>
  in \<open>s\<close>, scanning from the left, is replaced; a string without the pattern is
  returned as it is. (The source only passes the replacement \<^verbatim>\<open>""\<close>, so the
  \<^verbatim>\<open>$\<close> patterns of a replacement string play no part.)
\<close>

fun replace :: "string \<Rightarrow> string \<Rightarrow> string \<Rightarrow> string" where
  "replace [] pat rep = (if pat = [] then rep else [])"
| "replace (c # cs) pat rep =
     (if take (length pat) (c # cs) = pat then rep @ drop (length pat) (c # cs)
      else c # replace cs pat rep)"

text \<open>\<^verbatim>\<open>f.split(".")[0]\<close>: the part of \<open>f\<close> before its first dot (all of \<open>f\<close> when it has none).\<close>

definition split_dot_0 :: "string \<Rightarrow> string" where
  "split_dot_0 f = takeWhile (\<lambda>c. c \<noteq> CHR ''.'') f"

section \<open>Errors and promises\<close>

text \<open>
  A thrown value is an \<^verbatim>\<open>Error\<close> with its message. \<^verbatim>\<open>new Error(err)\<close> converts its
  argument to a string, which for an error is \<^verbatim>\<open>"Error: " + message\<close>.
  An \<^verbatim>\<open>async\<close> function either resolves with a value or rejects with an error.
\<close>

datatype error = Error string

fun error_toString :: "error \<Rightarrow> string" where
  "error_toString (Error m) = ''Error: '' @ m"

definition new_Error :: "error \<Rightarrow> error" where
  "new_Error err = Error (error_toString err)"

datatype 'a promise = Resolved 'a | Rejected error

section \<open>The storage root on disk\<close>

text \<open>
  Every physical path the code builds is \<^verbatim>\<open>path.join(publicFolder, n)\<close> for an entry
  name \<open>n\<close>, so the disk is the listing of \<^verbatim>\<open>publicFolder\<close>: its entries, in the order
  \<^verbatim>\<open>fs.readdirSync\<close> reports them, each a regular file with its size in bytes. A path
  is identified with the entry name it addresses.
\<close>

type_synonym folder = "(string \<times> nat) list"

definition readdirSync :: "folder \<Rightarrow> string list" where
  "readdirSync d = map fst d"

definition existsSync :: "string \<Rightarrow> folder \<Rightarrow> bool" where
  "existsSync p d = (p \<in> set (map fst d))"

definition statSync :: "string \<Rightarrow> folder \<Rightarrow> error + nat" where
  "statSync p d =
     (case map_of d p of
        None \<Rightarrow> Inl (Error (''ENOENT: no such file or directory, stat '' @ p))
      | Some sz \<Rightarrow> Inr sz)"

definition unlinkSync :: "string \<Rightarrow> folder \<Rightarrow> error + folder" where
  "unlinkSync p d =
     (if existsSync p d then Inr (filter (\<lambda>e. fst e \<noteq> p) d)
      else Inl (Error (''ENOENT: no such file or directory, unlink '' @ p)))"

text \<open>
  The physical files of a hash: the entries whose stem (the name up to its first dot)
  is the hash, which is how \<^verbatim>\<open>deleteFileByHash\<close> recognises them.
\<close>

definition physicalFiles :: "string \<Rightarrow> folder \<Rightarrow> string list" where
  "physicalFiles h d = filter (\<lambda>f. split_dot_0 f = h) (readdirSync d)"

section \<open>Configuration, uploads and options\<close>

text \<open>
  The injected callbacks of \<^verbatim>\<open>sfsConfig\<close> are functions that return a value or
  throw; \<^verbatim>\<open>getFileByHash\<close> may resolve with nothing. \<open>logger\<close> says whether a logger
  is configured, \<open>uid\<close> is the value the id generator returns in the call at hand.
\<close>

record config =
  publicFolder :: string
  mask' :: string
  getFileByHash :: "string \<Rightarrow> error + jsobj option"
  createFile :: "jsobj \<Rightarrow> error + jsobj"
  logger :: bool
  uid :: jsval
  allowDuplicates :: bool

text \<open>
  The library functions \<^verbatim>\<open>saveFile\<close> calls are parameters: \<^verbatim>\<open>decodeURI\<close> (which
  throws on a malformed escape), the SHA-256 hex digest, \<^verbatim>\<open>path.extname\<close>,
  \<^verbatim>\<open>fileTypeFromBuffer\<close> (the sniffed extension, if any), \<^verbatim>\<open>dotExtensionToCategotry\<close>
  and the clock \<^verbatim>\<open>Date.now()\<close>.
\<close>

record env =
  decodeURI :: "string \<Rightarrow> error + string"
  sha256_hex :: "string \<Rightarrow> string"
  extname :: "string \<Rightarrow> string"
  fileTypeFromBuffer :: "string \<Rightarrow> string option"
  dotExtensionToCategotry :: "string \<Rightarrow> string"
  now :: int

text \<open>
  Of an \<^verbatim>\<open>UploadedFile\<close> the code reads \<^verbatim>\<open>name\<close> and \<^verbatim>\<open>data\<close> and calls \<^verbatim>\<open>mv\<close>, which
  moves the upload to a path of the disk or throws.
\<close>

record upload =
  file_name :: string
  file_data :: string
  file_mv :: "string \<Rightarrow> folder \<Rightarrow> error + folder"

record options =
  opt_filePath :: "string option"
  opt_id :: "jsval option"
  opt_additionalData :: "jsobj option"

text \<open>What a call does to the outside, in order.\<close>

datatype event =
    Log string string
  | GetFileByHash string
  | Mv string
  | CreateFile jsobj
  | UnlinkSync string

record 'a run =
  result :: 'a
  disk :: folder
  events :: "event list"

text \<open>\<^verbatim>\<open>logger && logger(msg, lvl)\<close>.\<close>

definition log :: "config \<Rightarrow> string \<Rightarrow> string \<Rightarrow> event list" where
  "log C msg lvl = (if logger C then [Log msg lvl] else [])"

section \<open>The path codec\<close>

text \<open>Both functions close over the configured \<^verbatim>\<open>mask\<close>, here the parameter \<open>msk\<close>.\<close>

definition urlToId :: "string \<Rightarrow> string \<Rightarrow> string" where
  "urlToId msk url =
     (if endsWith msk ''/'' then replace url msk [] else replace url (msk @ ''/'') [])"

definition idToUrl :: "string \<Rightarrow> jsval \<Rightarrow> string" where
  "idToUrl msk ident = (if endsWith msk ''/'' then msk else msk @ ''/'') @ toString ident"

section \<open>Sequencing effects\<close>

text \<open>
  A step that has happened keeps its events and its disk when a later step throws:
  \<open>bind_run\<close> runs the rest of a \<^verbatim>\<open>try\<close> body on the value and the disk a step
  left, and passes a thrown error on.
\<close>

definition after :: "event list \<Rightarrow> 'a run \<Rightarrow> 'a run" where
  "after evs r = r\<lparr>events := evs @ events r\<rparr>"

definition bind_run ::
  "(error + 'a) run \<Rightarrow> ('a \<Rightarrow> folder \<Rightarrow> (error + 'b) run) \<Rightarrow> (error + 'b) run" where
  "bind_run r f =
     (case result r of
        Inl err \<Rightarrow> \<lparr>result = Inl err, disk = disk r, events = events r\<rparr>
      | Inr x \<Rightarrow> after (events r) (f x (disk r)))"

section \<open>saveFile\<close>

text \<open>Line 212: \<^verbatim>\<open>let fileInfo = await getFileByHash(hash)\<close>.\<close>

definition lookupByHash :: "config \<Rightarrow> string \<Rightarrow> folder \<Rightarrow> (error + jsobj option) run" where
  "lookupByHash C hash d = \<lparr>result = getFileByHash C hash, disk = d, events = [GetFileByHash hash]\<rparr>"

text \<open>Lines 214-222: the physical write, made only when no record has the hash.\<close>

definition writeIfNew ::
  "config \<Rightarrow> upload \<Rightarrow> string \<Rightarrow> jsobj option \<Rightarrow> folder \<Rightarrow> (error + unit) run" where
  "writeIfNew C file constPath fileInfo d =
     (if fileInfo \<noteq> None
      then \<lparr>result = Inr (), disk = d, events = log C ''SFS: File already uploaded'' ''info''\<rparr>
      else
        (case file_mv file constPath d of
           Inl err \<Rightarrow>
             \<lparr>result = Inl err, disk = d,
              events = log C ''SFS: Saving file'' ''success'' @ [Mv constPath]\<rparr>
         | Inr d1 \<Rightarrow>
             \<lparr>result = Inr (), disk = d1,
              events = log C ''SFS: Saving file'' ''success'' @ [Mv constPath]\<rparr>))"

text \<open>
  Lines 228-239: the object literal \<^verbatim>\<open>fileData\<close>. The core fields come first and
  \<^verbatim>\<open>...options?.additionalData\<close> is spread last; spreading an absent value adds
  nothing.
\<close>

definition fileData ::
  "jsval \<Rightarrow> string \<Rightarrow> string \<Rightarrow> string \<Rightarrow> jsval \<Rightarrow> jsval \<Rightarrow> int \<Rightarrow> string \<Rightarrow>
   jsobj option \<Rightarrow> jsobj" where
  "fileData ident name extension hash sz ty t filePath additionalData =
     [''id'' \<mapsto> ident, ''name'' \<mapsto> JStr name, ''extension'' \<mapsto> JStr extension,
      ''hash'' \<mapsto> JStr hash, ''size'' \<mapsto> sz, ''type'' \<mapsto> ty,
      ''last_modified'' \<mapsto> JNum t, ''path'' \<mapsto> JStr filePath, ''publishedAt'' \<mapsto> JNum t]
     ++ (case additionalData of None \<Rightarrow> Map.empty | Some ad \<Rightarrow> ad)"

text \<open>
  Lines 225-255: the branch that writes a metadata record. The \<^verbatim>\<open>catch\<close> of the
  inner \<^verbatim>\<open>try\<close> cleans up and ends without a \<^verbatim>\<open>throw\<close> or a \<^verbatim>\<open>return\<close>, so the
  function goes on to its end and resolves with \<^verbatim>\<open>undefined\<close> (\<open>Inr None\<close>).
\<close>

definition createRecord ::
  "env \<Rightarrow> config \<Rightarrow> options option \<Rightarrow> string \<Rightarrow> jsval \<Rightarrow> string \<Rightarrow> string \<Rightarrow> string \<Rightarrow>
   string \<Rightarrow> jsobj option \<Rightarrow> folder \<Rightarrow> (error + jsobj option) run" where
  "createRecord E C opts filePath ident name extension hash constPath fileInfo d =
     (case (if truthy (opt_prop fileInfo ''size'') then Inr (opt_prop fileInfo ''size'')
            else (case statSync constPath d of
                    Inl err \<Rightarrow> Inl err
                  | Inr n \<Rightarrow> Inr (JNum (int n)))) of
        Inl err \<Rightarrow> \<lparr>result = Inl err, disk = d, events = []\<rparr>
      | Inr sz \<Rightarrow>
          (let ty = (if truthy (opt_prop fileInfo ''type'') then opt_prop fileInfo ''type''
                     else JStr (dotExtensionToCategotry E extension));
               fd = fileData ident name extension hash sz ty (now E) filePath
                      (Option.bind opts opt_additionalData)
           in case createFile C fd of
                Inr mutationResult \<Rightarrow>
                  \<lparr>result =
                     Inr (Some (mutationResult
                       (''url'' \<mapsto> JStr (idToUrl (mask' C) (getprop mutationResult ''id''))))),
                   disk = d, events = [CreateFile fd]\<rparr>
              | Inl createError \<Rightarrow>
                  (if fileInfo = None \<and> existsSync constPath d
                   then
                     (case unlinkSync constPath d of
                        Inl err \<Rightarrow> \<lparr>result = Inl err, disk = d, events = [CreateFile fd]\<rparr>
                      | Inr d' \<Rightarrow>
                          \<lparr>result = Inr None, disk = d',
                           events = [CreateFile fd, UnlinkSync constPath]
                             @ log C ''SFS: Cleaning up orphaned file after database error''
                                 ''info''\<rparr>)
                   else \<lparr>result = Inr None, disk = d, events = [CreateFile fd]\<rparr>)))"

text \<open>
  Lines 224-264: a record is written when the content is new, or the existing record
  lies at another logical path, or duplicates are allowed; otherwise the existing
  record is returned with its URL. (Reading a property of an absent \<^verbatim>\<open>fileInfo\<close>
  would be a \<^verbatim>\<open>TypeError\<close>; the condition excludes it in the \<^verbatim>\<open>else\<close> branch.)
\<close>

definition recordOrExisting ::
  "env \<Rightarrow> config \<Rightarrow> options option \<Rightarrow> string \<Rightarrow> jsval \<Rightarrow> string \<Rightarrow> string \<Rightarrow> string \<Rightarrow>
   string \<Rightarrow> jsobj option \<Rightarrow> folder \<Rightarrow> (error + jsobj option) run" where
  "recordOrExisting E C opts filePath ident name extension hash constPath fileInfo d =
     (if fileInfo = None \<or> JStr filePath \<noteq> opt_prop fileInfo ''path'' \<or> allowDuplicates C
      then createRecord E C opts filePath ident name extension hash constPath fileInfo d
      else
        (case fileInfo of
           None \<Rightarrow>
             \<lparr>result = Inl (Error ''TypeError: Cannot read properties of undefined''),
              disk = d, events = []\<rparr>
         | Some fi \<Rightarrow>
             \<lparr>result = Inr (Some (fi(''url'' \<mapsto> JStr (idToUrl (mask' C) (getprop fi ''id''))))),
              disk = d,
              events = log C ''File already exists at this location'' ''error''\<rparr>))"

text \<open>Line 193: \<^verbatim>\<open>const filePath = options?.filePath || "/"\<close>.\<close>

definition filePath_of :: "options option \<Rightarrow> string" where
  "filePath_of opts =
     (case Option.bind opts opt_filePath of
        None \<Rightarrow> ''/''
      | Some p \<Rightarrow> if p \<noteq> [] then p else ''/'')"

text \<open>Line 194: \<^verbatim>\<open>const id = options?.id || uid()\<close>.\<close>

definition id_of :: "config \<Rightarrow> options option \<Rightarrow> jsval" where
  "id_of C opts =
     (case Option.bind opts opt_id of
        None \<Rightarrow> uid C
      | Some i \<Rightarrow> if truthy i then i else uid C)"

text \<open>Lines 200-209: the extension of the name, else the sniffed one, else none.\<close>

definition extension_of :: "env \<Rightarrow> string \<Rightarrow> string \<Rightarrow> string" where
  "extension_of E name buf =
     (let extensionFromName = extname E name
      in if extensionFromName \<noteq> [] then extensionFromName
         else (case fileTypeFromBuffer E buf of
                 None \<Rightarrow> []
               | Some ext \<Rightarrow> ''.'' @ ext))"

text \<open>Lines 192-264: the body of the outer \<^verbatim>\<open>try\<close>.\<close>

definition saveFile_try ::
  "env \<Rightarrow> config \<Rightarrow> upload \<Rightarrow> options option \<Rightarrow> folder \<Rightarrow> (error + jsobj option) run" where
  "saveFile_try E C file opts d =
     (let filePath = filePath_of opts;
          ident = id_of C opts
      in case decodeURI E (file_name file) of
           Inl err \<Rightarrow> \<lparr>result = Inl err, disk = d, events = []\<rparr>
         | Inr name \<Rightarrow>
             (let hash = sha256_hex E (file_data file);
                  extension = extension_of E name (file_data file);
                  constPath = hash @ extension
              in bind_run (lookupByHash C hash d) (\<lambda>fileInfo d0.
                   bind_run (writeIfNew C file constPath fileInfo d0) (\<lambda>_ d1.
                     recordOrExisting E C opts filePath ident name extension hash constPath
                       fileInfo d1))))"

text \<open>Lines 265-268: the outer \<^verbatim>\<open>catch\<close> logs and rethrows \<^verbatim>\<open>new Error(err)\<close>.\<close>

definition saveFile ::
  "env \<Rightarrow> config \<Rightarrow> upload \<Rightarrow> options option \<Rightarrow> folder \<Rightarrow> jsobj option promise run" where
  "saveFile E C file opts d =
     (let r = saveFile_try E C file opts d
      in case result r of
           Inl err \<Rightarrow>
             \<lparr>result = Rejected (new_Error err), disk = disk r,
              events = events r @ log C ''Upload error'' ''error''\<rparr>
         | Inr v \<Rightarrow> \<lparr>result = Resolved v, disk = disk r, events = events r\<rparr>)"

section \<open>deleteFileByHash\<close>

text \<open>
  Lines 271-278. \<^verbatim>\<open>files.find\<close> yields the first entry whose stem is the hash, or
  \<^verbatim>\<open>undefined\<close>; \<^verbatim>\<open>!fileToDelete\<close> holds for \<^verbatim>\<open>undefined\<close> and for the empty string.
\<close>

definition deleteFileByHash_try :: "config \<Rightarrow> string \<Rightarrow> folder \<Rightarrow> (error + unit) run" where
  "deleteFileByHash_try C hash d =
     (let files = readdirSync d;
          fileToDelete = find (\<lambda>f. split_dot_0 f = hash) files
      in case fileToDelete of
           None \<Rightarrow>
             \<lparr>result = Inl (Error (''File with hash '' @ hash @ '' not found in '' @ publicFolder C)),
              disk = d, events = []\<rparr>
         | Some f \<Rightarrow>
             (if f = []
              then
                \<lparr>result =
                   Inl (Error (''File with hash '' @ hash @ '' not found in '' @ publicFolder C)),
                 disk = d, events = []\<rparr>
              else
                (case unlinkSync f d of
                   Inl err \<Rightarrow> \<lparr>result = Inl err, disk = d, events = []\<rparr>
                 | Inr d' \<Rightarrow> \<lparr>result = Inr (), disk = d', events = [UnlinkSync f]\<rparr>)))"

text \<open>Lines 279-281: \<^verbatim>\<open>catch (err) { throw new Error(err) }\<close>.\<close>

definition deleteFileByHash :: "config \<Rightarrow> string \<Rightarrow> folder \<Rightarrow> unit promise run" where
  "deleteFileByHash C hash d =
     (let r = deleteFileByHash_try C hash d
      in case result r of
           Inl err \<Rightarrow> \<lparr>result = Rejected (new_Error err), disk = disk r, events = events r\<rparr>
         | Inr v \<Rightarrow> \<lparr>result = Resolved v, disk = disk r, events = events r\<rparr>)"

section \<open>A concrete deployment\<close>

text \<open>
  One instance of every parameter, for running the functions: file names without
  escapes, a stand-in digest that tells the empty buffer from the others, the
  extension after the last dot (which is \<^verbatim>\<open>path.extname\<close> on the names used below), no
  sniffing, an \<^verbatim>\<open>mv\<close> that writes the upload's bytes, and a metadata store that is a
  list of records searched by hash, as in the README.
\<close>

definition example_extname :: "string \<Rightarrow> string" where
  "example_extname n =
     (if CHR ''.'' \<in> set n then CHR ''.'' # rev (takeWhile (\<lambda>c. c \<noteq> CHR ''.'') (rev n))
      else [])"

definition example_env :: env where
  "example_env =
     \<lparr>decodeURI = Inr,
      sha256_hex = (\<lambda>b. if b = [] then ''e3b0c442'' else ''abc123''),
      extname = example_extname,
      fileTypeFromBuffer = (\<lambda>b. None),
      dotExtensionToCategotry = (\<lambda>e. if e = ''.pdf'' then ''document'' else ''other''),
      now = 1700000000000\<rparr>"

definition mv_write :: "nat \<Rightarrow> string \<Rightarrow> folder \<Rightarrow> error + folder" where
  "mv_write n p d = Inr (filter (\<lambda>e. fst e \<noteq> p) d @ [(p, n)])"

definition example_upload :: "string \<Rightarrow> string \<Rightarrow> upload" where
  "example_upload n b = \<lparr>file_name = n, file_data = b, file_mv = mv_write (length b)\<rparr>"

definition example_config ::
  "(string \<Rightarrow> error + jsobj option) \<Rightarrow> (jsobj \<Rightarrow> error + jsobj) \<Rightarrow> config" where
  "example_config lookup create =
     \<lparr>publicFolder = ''./uploads'', mask' = ''https://cdn.x/files'',
      getFileByHash = lookup, createFile = create, logger = False,
      uid = JStr ''uid-1'', allowDuplicates = False\<rparr>"

definition example_options :: "string \<Rightarrow> options" where
  "example_options p = \<lparr>opt_filePath = Some p, opt_id = None, opt_additionalData = None\<rparr>"

text \<open>Options whose additional data names core fields, and options whose id and path are falsy.\<close>

definition override_options :: options where
  "override_options =
     \<lparr>opt_filePath = Some ''/docs'', opt_id = Some (JStr ''wanted''),
      opt_additionalData = Some [''id'' \<mapsto> JStr ''forced'', ''size'' \<mapsto> JNum 0]\<rparr>"

definition falsy_options :: options where
  "falsy_options = \<lparr>opt_filePath = Some [], opt_id = Some (JNum 0), opt_additionalData = None\<rparr>"

definition report_record :: jsobj where
  "report_record =
     [''id'' \<mapsto> JStr ''f1'', ''name'' \<mapsto> JStr ''report.pdf'', ''extension'' \<mapsto> JStr ''.pdf'',
      ''hash'' \<mapsto> JStr ''abc123'', ''size'' \<mapsto> JNum 4, ''type'' \<mapsto> JStr ''document'',
      ''last_modified'' \<mapsto> JNum 1690000000000, ''path'' \<mapsto> JStr ''/docs'']"

definition empty_record :: jsobj where
  "empty_record =
     [''id'' \<mapsto> JStr ''f0'', ''name'' \<mapsto> JStr ''empty.txt'', ''extension'' \<mapsto> JStr ''.txt'',
      ''hash'' \<mapsto> JStr ''e3b0c442'', ''size'' \<mapsto> JNum 0, ''type'' \<mapsto> JStr ''other'',
      ''last_modified'' \<mapsto> JNum 1690000000000, ''path'' \<mapsto> JStr ''/docs'']"

definition store_of :: "jsobj list \<Rightarrow> string \<Rightarrow> error + jsobj option" where
  "store_of rs h = Inr (find (\<lambda>r. getprop r ''hash'' = JStr h) rs)"

definition create_ok :: "jsobj \<Rightarrow> error + jsobj" where
  "create_ok r = Inr r"

definition create_fails :: "jsobj \<Rightarrow> error + jsobj" where
  "create_fails r = Inl (Error ''database unavailable'')"

lemmas example_defs =
  example_extname_def example_env_def mv_write_def example_upload_def example_config_def
  example_options_def report_record_def empty_record_def store_of_def create_ok_def
  create_fails_def

lemmas run_defs =
  saveFile_def saveFile_try_def bind_run_def lookupByHash_def writeIfNew_def
  recordOrExisting_def createRecord_def after_def log_def Let_def filePath_of_def id_of_def
  extension_of_def getprop_def opt_prop_def statSync_def existsSync_def unlinkSync_def
  new_Error_def

section \<open>The path codec: round trip and separator\<close>

lemma replace_prefix: "replace (p @ s) p [] = s"
proof (cases "p @ s")
  case Nil
  then show ?thesis by simp
next
  case (Cons a list)
  have t: "take (length p) (a # list) = p" by (simp flip: Cons)
  have d: "drop (length p) (a # list) = s" by (simp flip: Cons)
  show ?thesis unfolding Cons using t d by simp
qed

lemma replace_prefix_slash: "replace (m @ CHR ''/'' # s) (m @ ''/'') [] = s"
  using replace_prefix [of "m @ ''/''" s] by simp

lemma endsWith_slash_append: "endsWith (m @ ''/'') ''/''"
  by (simp add: endsWith_def)

text \<open>
  C4. For every mask, with or without a trailing slash, and every id,
  \<^verbatim>\<open>urlToId(idToUrl(id))\<close> gives the id back: a string id as it is, a numeric id as
  the decimal string it was written into the URL as (\<^verbatim>\<open>urlToId\<close> returns a string).
  The prefix \<^verbatim>\<open>idToUrl\<close> wrote is the leftmost occurrence of itself in the URL, so
  no condition on the mask is needed.
\<close>

theorem urlToId_idToUrl:
  "urlToId msk (idToUrl msk ident) = toString ident \<and> urlToId msk (idToUrl msk (JStr s)) = s"
  by (simp add: urlToId_def idToUrl_def replace_prefix replace_prefix_slash)

theorem urlToId_idToUrl_witness:
  "urlToId ''https://cdn.x/files'' (idToUrl ''https://cdn.x/files'' (JNum 42)) = ''42''
   \<and> urlToId ''https://cdn.x/files'' (idToUrl ''https://cdn.x/files'' (JStr ''files'')) = ''files''"
  using urlToId_idToUrl [of "''https://cdn.x/files''" "JNum 42" "''files''"]
  by (simp add: digits.simps)

text \<open>
  C8. For a mask \<open>m\<close> that does not end in the separator, \<^verbatim>\<open>idToUrl\<close> under \<open>m\<close> and
  under \<open>m + "/"\<close> both produce \<open>m\<close>, one separator, and the id.
\<close>

theorem idToUrl_one_separator:
  assumes "\<not> endsWith m ''/''"
  shows "idToUrl m ident = m @ ''/'' @ toString ident
       \<and> idToUrl (m @ ''/'') ident = m @ ''/'' @ toString ident"
  using assms by (simp add: idToUrl_def endsWith_slash_append)

theorem idToUrl_one_separator_witness:
  "\<not> endsWith ''https://cdn.x/files'' ''/''
   \<and> idToUrl ''https://cdn.x/files'' (JStr ''f1'') = ''https://cdn.x/files/f1''
   \<and> idToUrl ''https://cdn.x/files/'' (JStr ''f1'') = ''https://cdn.x/files/f1''"
proof -
  have h: "\<not> endsWith ''https://cdn.x/files'' ''/''"
    by (simp add: endsWith_def)
  show ?thesis
    using h idToUrl_one_separator [OF h, of "JStr ''f1''"] by simp
qed

section \<open>saveFile when the hash already has a record\<close>

lemma after_simps [simp]:
  "result (after evs r) = result r"
  "disk (after evs r) = disk r"
  "events (after evs r) = evs @ events r"
  by (simp_all add: after_def)

lemma createRecord_existing_disk:
  "disk (createRecord E C opts fp i n ext h cp (Some fi) d) = d"
  by (simp add: createRecord_def Let_def split: sum.splits)

lemma createRecord_existing_events:
  "e \<in> set (events (createRecord E C opts fp i n ext h cp (Some fi) d)) \<Longrightarrow> \<exists>r. e = CreateFile r"
  by (auto simp add: createRecord_def Let_def split: sum.splits if_splits)

lemma recordOrExisting_existing_disk:
  "disk (recordOrExisting E C opts fp i n ext h cp (Some fi) d) = d"
  by (simp add: recordOrExisting_def createRecord_existing_disk)

lemma recordOrExisting_existing_events:
  "e \<in> set (events (recordOrExisting E C opts fp i n ext h cp (Some fi) d)) \<Longrightarrow>
     (\<exists>r. e = CreateFile r) \<or> (\<exists>m l. e = Log m l)"
  by (auto simp add: recordOrExisting_def log_def dest: createRecord_existing_events
      split: if_splits)

lemma saveFile_try_existing:
  assumes "decodeURI E (file_name file) = Inr name"
    and "getFileByHash C (sha256_hex E (file_data file)) = Inr (Some fi)"
  shows "saveFile_try E C file opts d =
     after (GetFileByHash (sha256_hex E (file_data file))
            # log C ''SFS: File already uploaded'' ''info'')
       (recordOrExisting E C opts (filePath_of opts) (id_of C opts) name
          (extension_of E name (file_data file)) (sha256_hex E (file_data file))
          (sha256_hex E (file_data file) @ extension_of E name (file_data file)) (Some fi) d)"
  using assms
  by (simp add: saveFile_try_def Let_def bind_run_def lookupByHash_def writeIfNew_def after_def)

lemma saveFile_try_decode_error:
  "decodeURI E (file_name file) = Inl err \<Longrightarrow>
     saveFile_try E C file opts d = \<lparr>result = Inl err, disk = d, events = []\<rparr>"
  by (simp add: saveFile_try_def)

lemma saveFile_disk: "disk (saveFile E C file opts d) = disk (saveFile_try E C file opts d)"
  by (simp add: saveFile_def Let_def split: sum.splits)

lemma saveFile_events:
  "e \<in> set (events (saveFile E C file opts d)) \<Longrightarrow>
     e \<in> set (events (saveFile_try E C file opts d)) \<or> (\<exists>m l. e = Log m l)"
  by (auto simp add: saveFile_def Let_def log_def split: sum.splits if_splits)

lemma saveFile_try_existing_disk:
  assumes "getFileByHash C (sha256_hex E (file_data file)) = Inr (Some fi)"
  shows "disk (saveFile_try E C file opts d) = d"
proof (cases "decodeURI E (file_name file)")
  case (Inl err)
  then show ?thesis by (simp add: saveFile_try_decode_error)
next
  case (Inr name)
  then show ?thesis
    by (simp add: saveFile_try_existing [OF Inr assms] recordOrExisting_existing_disk)
qed

lemma saveFile_try_existing_events:
  assumes "getFileByHash C (sha256_hex E (file_data file)) = Inr (Some fi)"
    and "e \<in> set (events (saveFile_try E C file opts d))"
  shows "(\<exists>r. e = CreateFile r) \<or> (\<exists>m l. e = Log m l) \<or> (\<exists>h. e = GetFileByHash h)"
proof (cases "decodeURI E (file_name file)")
  case (Inl err)
  then show ?thesis using assms(2) by (simp add: saveFile_try_decode_error)
next
  case (Inr name)
  then show ?thesis
    using assms(2) recordOrExisting_existing_events
    by (fastforce simp add: saveFile_try_existing [OF Inr assms(1)] log_def split: if_splits)
qed

lemma saveFile_existing_events:
  assumes "getFileByHash C (sha256_hex E (file_data file)) = Inr (Some fi)"
    and "e \<in> set (events (saveFile E C file opts d))"
  shows "(\<exists>r. e = CreateFile r) \<or> (\<exists>m l. e = Log m l) \<or> (\<exists>h. e = GetFileByHash h)"
  using saveFile_events [OF assms(2)] saveFile_try_existing_events [OF assms(1)] by blast




text \<open>
  C2. When \<^verbatim>\<open>getFileByHash\<close> returns a record whose \<^verbatim>\<open>path\<close> is the requested
  \<^verbatim>\<open>filePath\<close> (the value of line 193, after its default) and duplicates are not
  allowed, \<^verbatim>\<open>saveFile\<close> resolves with that record and its URL from \<^verbatim>\<open>idToUrl\<close>; it
  leaves the disk as it was and calls neither \<^verbatim>\<open>file.mv\<close> nor \<^verbatim>\<open>createFile\<close>.
\<close>

theorem saveFile_same_path_returns_existing:
  assumes "decodeURI E (file_name file) = Inr name"
    and "getFileByHash C (sha256_hex E (file_data file)) = Inr (Some fi)"
    and "getprop fi ''path'' = JStr (filePath_of opts)"
    and "\<not> allowDuplicates C"
  shows "result (saveFile E C file opts d)
           = Resolved (Some (fi(''url'' \<mapsto> JStr (idToUrl (mask' C) (getprop fi ''id'')))))
       \<and> disk (saveFile E C file opts d) = d
       \<and> events (saveFile E C file opts d)
           = GetFileByHash (sha256_hex E (file_data file))
             # log C ''SFS: File already uploaded'' ''info''
             @ log C ''File already exists at this location'' ''error''
       \<and> (\<forall>p. Mv p \<notin> set (events (saveFile E C file opts d)))
       \<and> (\<forall>r. CreateFile r \<notin> set (events (saveFile E C file opts d)))"
proof -
  have ev: "events (saveFile E C file opts d)
           = GetFileByHash (sha256_hex E (file_data file))
             # log C ''SFS: File already uploaded'' ''info''
             @ log C ''File already exists at this location'' ''error''"
    using assms(3,4)
    by (simp add: saveFile_def Let_def saveFile_try_existing [OF assms(1,2)]
        recordOrExisting_def opt_prop_def)
  have res: "result (saveFile E C file opts d)
           = Resolved (Some (fi(''url'' \<mapsto> JStr (idToUrl (mask' C) (getprop fi ''id'')))))"
    using assms(3,4)
    by (simp add: saveFile_def Let_def saveFile_try_existing [OF assms(1,2)]
        recordOrExisting_def opt_prop_def)
  have dk: "disk (saveFile E C file opts d) = d"
    by (simp add: saveFile_disk saveFile_try_existing_disk [OF assms(2)])
  show ?thesis
    unfolding ev using res dk by (auto simp add: log_def)
qed


theorem saveFile_same_path_returns_existing_witness:
  "decodeURI example_env (file_name (example_upload ''copy.pdf'' ''%PDF'')) = Inr ''copy.pdf''
   \<and> getFileByHash (example_config (store_of [report_record]) create_ok)
       (sha256_hex example_env (file_data (example_upload ''copy.pdf'' ''%PDF'')))
       = Inr (Some report_record)
   \<and> getprop report_record ''path'' = JStr (filePath_of (Some (example_options ''/docs'')))
   \<and> \<not> allowDuplicates (example_config (store_of [report_record]) create_ok)
   \<and> result (saveFile example_env (example_config (store_of [report_record]) create_ok)
        (example_upload ''copy.pdf'' ''%PDF'') (Some (example_options ''/docs''))
        [(''abc123.pdf'', 4)])
       = Resolved (Some (report_record(''url'' \<mapsto> JStr ''https://cdn.x/files/f1'')))
   \<and> disk (saveFile example_env (example_config (store_of [report_record]) create_ok)
        (example_upload ''copy.pdf'' ''%PDF'') (Some (example_options ''/docs''))
        [(''abc123.pdf'', 4)]) = [(''abc123.pdf'', 4)]
   \<and> events (saveFile example_env (example_config (store_of [report_record]) create_ok)
        (example_upload ''copy.pdf'' ''%PDF'') (Some (example_options ''/docs''))
        [(''abc123.pdf'', 4)]) = [GetFileByHash ''abc123'']"
proof -
  have h1: "decodeURI example_env (file_name (example_upload ''copy.pdf'' ''%PDF''))
      = Inr ''copy.pdf''"
    by (simp add: example_env_def example_upload_def)
  have h2: "getFileByHash (example_config (store_of [report_record]) create_ok)
       (sha256_hex example_env (file_data (example_upload ''copy.pdf'' ''%PDF'')))
       = Inr (Some report_record)"
    by (simp add: example_defs getprop_def)
  have h3: "getprop report_record ''path'' = JStr (filePath_of (Some (example_options ''/docs'')))"
    by (simp add: getprop_def report_record_def filePath_of_def example_options_def)
  have h4: "\<not> allowDuplicates (example_config (store_of [report_record]) create_ok)"
    by (simp add: example_config_def)
  have u: "idToUrl (mask' (example_config (store_of [report_record]) create_ok))
       (getprop report_record ''id'') = ''https://cdn.x/files/f1''"
    by (simp add: idToUrl_def endsWith_def example_config_def getprop_def report_record_def)
  have s: "sha256_hex example_env (file_data (example_upload ''copy.pdf'' ''%PDF'')) = ''abc123''"
    by (simp add: example_env_def example_upload_def)
  have l: "logger (example_config (store_of [report_record]) create_ok) = False"
    by (simp add: example_config_def)
  show ?thesis
    using h1 h2 h3 h4
      saveFile_same_path_returns_existing [OF h1 h2 h3 h4, of "[(''abc123.pdf'', 4)]"]
    by (simp add: u s l log_def)
qed

section \<open>The record handed to createFile\<close>

lemma createRecord_CreateFile:
  "CreateFile r \<in> set (events (createRecord E C opts fp i n ext h cp fi d)) \<Longrightarrow>
     \<exists>sz ty. r = fileData i n ext h sz ty (now E) fp (Option.bind opts opt_additionalData)"
  by (auto simp add: createRecord_def Let_def log_def split: sum.splits if_splits)

lemma recordOrExisting_CreateFile:
  "CreateFile r \<in> set (events (recordOrExisting E C opts fp i n ext h cp fi d)) \<Longrightarrow>
     \<exists>sz ty. r = fileData i n ext h sz ty (now E) fp (Option.bind opts opt_additionalData)"
  by (auto simp add: recordOrExisting_def log_def dest: createRecord_CreateFile
      split: if_splits option.splits)

lemma saveFile_try_CreateFile:
  assumes "CreateFile r \<in> set (events (saveFile_try E C file opts d))"
  shows "\<exists>name sz ty. decodeURI E (file_name file) = Inr name \<and>
     r = fileData (id_of C opts) name (extension_of E name (file_data file))
           (sha256_hex E (file_data file)) sz ty (now E) (filePath_of opts)
           (Option.bind opts opt_additionalData)"
  using assms
  by (auto simp add: saveFile_try_def Let_def bind_run_def lookupByHash_def writeIfNew_def
      log_def dest: recordOrExisting_CreateFile split: sum.splits if_splits)

lemma saveFile_CreateFile:
  assumes "CreateFile r \<in> set (events (saveFile E C file opts d))"
  shows "\<exists>name sz ty. decodeURI E (file_name file) = Inr name \<and>
     r = fileData (id_of C opts) name (extension_of E name (file_data file))
           (sha256_hex E (file_data file)) sz ty (now E) (filePath_of opts)
           (Option.bind opts opt_additionalData)"
  using saveFile_events [OF assms] saveFile_try_CreateFile by blast

section \<open>Failure of createFile\<close>

lemma statSync_exists: "statSync p d = Inr n \<Longrightarrow> existsSync p d"
  by (auto simp add: statSync_def existsSync_def split: option.splits dest: map_of_SomeD
      intro: rev_image_eqI)

lemma unlinkSync_gone: "unlinkSync p d = Inr d' \<Longrightarrow> \<not> existsSync p d'"
  by (auto simp add: unlinkSync_def existsSync_def split: if_splits)

text \<open>
  C5. When the content is not new (\<^verbatim>\<open>getFileByHash\<close> returned a record) and the call
  to \<^verbatim>\<open>createFile\<close> throws, nothing is unlinked: the disk is unchanged, so the file
  at the computed path is there afterwards exactly if it was there before.
\<close>

theorem saveFile_existing_create_failure_keeps_file:
  assumes "getFileByHash C (sha256_hex E (file_data file)) = Inr (Some fi)"
    and "CreateFile r \<in> set (events (saveFile E C file opts d))"
    and "createFile C r = Inl err"
  shows "(\<forall>p. UnlinkSync p \<notin> set (events (saveFile E C file opts d)))
       \<and> disk (saveFile E C file opts d) = d
       \<and> (\<forall>p. existsSync p (disk (saveFile E C file opts d)) = existsSync p d)"
proof -
  have "UnlinkSync p \<notin> set (events (saveFile E C file opts d))" for p
    using saveFile_existing_events [OF assms(1), of "UnlinkSync p"] by auto
  moreover have "disk (saveFile E C file opts d) = d"
    by (simp add: saveFile_disk saveFile_try_existing_disk [OF assms(1)])
  ultimately show ?thesis by simp
qed

theorem saveFile_existing_create_failure_keeps_file_witness:
  "getFileByHash (example_config (store_of [report_record]) create_fails)
       (sha256_hex example_env (file_data (example_upload ''copy.pdf'' ''%PDF'')))
       = Inr (Some report_record)
   \<and> CreateFile (fileData (JStr ''uid-1'') ''copy.pdf'' ''.pdf'' ''abc123'' (JNum 4)
        (JStr ''document'') 1700000000000 ''/archive'' None)
       \<in> set (events (saveFile example_env
            (example_config (store_of [report_record]) create_fails)
            (example_upload ''copy.pdf'' ''%PDF'') (Some (example_options ''/archive''))
            [(''abc123.pdf'', 4)]))
   \<and> createFile (example_config (store_of [report_record]) create_fails)
        (fileData (JStr ''uid-1'') ''copy.pdf'' ''.pdf'' ''abc123'' (JNum 4)
        (JStr ''document'') 1700000000000 ''/archive'' None)
       = Inl (Error ''database unavailable'')
   \<and> disk (saveFile example_env (example_config (store_of [report_record]) create_fails)
        (example_upload ''copy.pdf'' ''%PDF'') (Some (example_options ''/archive''))
        [(''abc123.pdf'', 4)]) = [(''abc123.pdf'', 4)]
   \<and> existsSync ''abc123.pdf'' (disk (saveFile example_env
        (example_config (store_of [report_record]) create_fails)
        (example_upload ''copy.pdf'' ''%PDF'') (Some (example_options ''/archive''))
        [(''abc123.pdf'', 4)]))"
proof -
  have h1: "getFileByHash (example_config (store_of [report_record]) create_fails)
       (sha256_hex example_env (file_data (example_upload ''copy.pdf'' ''%PDF'')))
       = Inr (Some report_record)"
    by (simp add: example_defs getprop_def)
  have h2: "CreateFile (fileData (JStr ''uid-1'') ''copy.pdf'' ''.pdf'' ''abc123'' (JNum 4)
        (JStr ''document'') 1700000000000 ''/archive'' None)
       \<in> set (events (saveFile example_env
            (example_config (store_of [report_record]) create_fails)
            (example_upload ''copy.pdf'' ''%PDF'') (Some (example_options ''/archive''))
            [(''abc123.pdf'', 4)]))"
    by (simp add: run_defs example_defs)
  have h3: "createFile (example_config (store_of [report_record]) create_fails)
        (fileData (JStr ''uid-1'') ''copy.pdf'' ''.pdf'' ''abc123'' (JNum 4)
        (JStr ''document'') 1700000000000 ''/archive'' None)
       = Inl (Error ''database unavailable'')"
    by (simp add: example_config_def create_fails_def)
  have e: "existsSync ''abc123.pdf'' [(''abc123.pdf'', 4)]"
    by (simp add: existsSync_def)
  show ?thesis
    using h1 h2 h3 e saveFile_existing_create_failure_keeps_file [OF h1 h2 h3]
    by simp
qed


lemma saveFile_try_novel:
  assumes "decodeURI E (file_name file) = Inr name"
    and "getFileByHash C (sha256_hex E (file_data file)) = Inr None"
  shows "saveFile_try E C file opts d =
     (case file_mv file (sha256_hex E (file_data file) @ extension_of E name (file_data file)) d of
        Inl err \<Rightarrow>
          \<lparr>result = Inl err, disk = d,
           events = GetFileByHash (sha256_hex E (file_data file))
             # log C ''SFS: Saving file'' ''success''
             @ [Mv (sha256_hex E (file_data file) @ extension_of E name (file_data file))]\<rparr>
      | Inr d1 \<Rightarrow>
          after (GetFileByHash (sha256_hex E (file_data file))
                 # log C ''SFS: Saving file'' ''success''
                 @ [Mv (sha256_hex E (file_data file) @ extension_of E name (file_data file))])
            (createRecord E C opts (filePath_of opts) (id_of C opts) name
               (extension_of E name (file_data file)) (sha256_hex E (file_data file))
               (sha256_hex E (file_data file) @ extension_of E name (file_data file)) None d1))"
  using assms
  by (simp add: saveFile_try_def Let_def bind_run_def lookupByHash_def writeIfNew_def after_def
      recordOrExisting_def split: sum.splits)

lemma createRecord_novel_failure:
  assumes "CreateFile r \<in> set (events (createRecord E C opts fp i n ext h cp None d))"
    and "createFile C r = Inl err"
  shows "result (createRecord E C opts fp i n ext h cp None d) = Inr None
       \<and> \<not> existsSync cp (disk (createRecord E C opts fp i n ext h cp None d))
       \<and> UnlinkSync cp \<in> set (events (createRecord E C opts fp i n ext h cp None d))"
proof (cases "statSync cp d")
  case (Inl e)
  then show ?thesis using assms(1) by (simp add: createRecord_def opt_prop_def)
next
  case (Inr k)
  have ex: "existsSync cp d" using Inr by (rule statSync_exists)
  then have ul: "unlinkSync cp d = Inr (filter (\<lambda>e. fst e \<noteq> cp) d)"
    by (simp add: unlinkSync_def)
  have gone: "\<not> existsSync cp (filter (\<lambda>e. fst e \<noteq> cp) d)"
    using ul by (rule unlinkSync_gone)
  show ?thesis
    using assms Inr ex ul gone
    by (auto simp add: createRecord_def opt_prop_def Let_def split: sum.splits)
qed

text \<open>
  C1. When the content is new and the call to \<^verbatim>\<open>createFile\<close> throws, the file just
  written is unlinked, as claimed; but the \<^verbatim>\<open>catch\<close> block does not rethrow, so
  \<^verbatim>\<open>saveFile\<close> resolves with \<^verbatim>\<open>undefined\<close> where the claim, and the function's own
  \<^verbatim>\<open>@throws\<close> note, have it reject.
\<close>

theorem saveFile_novel_create_failure:
  assumes "decodeURI E (file_name file) = Inr name"
    and "getFileByHash C (sha256_hex E (file_data file)) = Inr None"
    and "CreateFile r \<in> set (events (saveFile E C file opts d))"
    and "createFile C r = Inl err"
  shows "\<not> existsSync (sha256_hex E (file_data file) @ extension_of E name (file_data file))
            (disk (saveFile E C file opts d))
       \<and> UnlinkSync (sha256_hex E (file_data file) @ extension_of E name (file_data file))
            \<in> set (events (saveFile E C file opts d))
       \<and> result (saveFile E C file opts d) = Resolved None"
proof -
  let ?cp = "sha256_hex E (file_data file) @ extension_of E name (file_data file)"
  have c: "CreateFile r \<in> set (events (saveFile_try E C file opts d))"
    using saveFile_events [OF assms(3)] by auto
  show ?thesis
  proof (cases "file_mv file ?cp d")
    case (Inl e)
    then show ?thesis
      using c by (simp add: saveFile_try_novel [OF assms(1,2)] log_def)
  next
    case (Inr d1)
    let ?cr = "createRecord E C opts (filePath_of opts) (id_of C opts) name
               (extension_of E name (file_data file)) (sha256_hex E (file_data file)) ?cp None d1"
    have t: "saveFile_try E C file opts d =
        after (GetFileByHash (sha256_hex E (file_data file))
                 # log C ''SFS: Saving file'' ''success'' @ [Mv ?cp]) ?cr"
      by (simp add: saveFile_try_novel [OF assms(1,2)] Inr)
    have "CreateFile r \<in> set (events ?cr)"
      using c by (auto simp add: t log_def split: if_splits)
    from createRecord_novel_failure [OF this assms(4)]
    show ?thesis
      by (simp add: saveFile_def Let_def t)
  qed
qed

theorem saveFile_novel_create_failure_witness:
  "decodeURI example_env (file_name (example_upload ''report.pdf'' ''%PDF'')) = Inr ''report.pdf''
   \<and> getFileByHash (example_config (store_of []) create_fails)
       (sha256_hex example_env (file_data (example_upload ''report.pdf'' ''%PDF''))) = Inr None
   \<and> CreateFile (fileData (JStr ''uid-1'') ''report.pdf'' ''.pdf'' ''abc123'' (JNum 4)
        (JStr ''document'') 1700000000000 ''/docs'' None)
       \<in> set (events (saveFile example_env (example_config (store_of []) create_fails)
            (example_upload ''report.pdf'' ''%PDF'') (Some (example_options ''/docs'')) []))
   \<and> createFile (example_config (store_of []) create_fails)
        (fileData (JStr ''uid-1'') ''report.pdf'' ''.pdf'' ''abc123'' (JNum 4)
        (JStr ''document'') 1700000000000 ''/docs'' None)
       = Inl (Error ''database unavailable'')
   \<and> \<not> existsSync ''abc123.pdf''
        (disk (saveFile example_env (example_config (store_of []) create_fails)
            (example_upload ''report.pdf'' ''%PDF'') (Some (example_options ''/docs'')) []))
   \<and> result (saveFile example_env (example_config (store_of []) create_fails)
        (example_upload ''report.pdf'' ''%PDF'') (Some (example_options ''/docs'')) [])
       = Resolved None"
proof -
  have h1: "decodeURI example_env (file_name (example_upload ''report.pdf'' ''%PDF''))
      = Inr ''report.pdf''"
    by (simp add: example_env_def example_upload_def)
  have h2: "getFileByHash (example_config (store_of []) create_fails)
       (sha256_hex example_env (file_data (example_upload ''report.pdf'' ''%PDF''))) = Inr None"
    by (simp add: example_defs)
  have h3: "CreateFile (fileData (JStr ''uid-1'') ''report.pdf'' ''.pdf'' ''abc123'' (JNum 4)
        (JStr ''document'') 1700000000000 ''/docs'' None)
       \<in> set (events (saveFile example_env (example_config (store_of []) create_fails)
            (example_upload ''report.pdf'' ''%PDF'') (Some (example_options ''/docs'')) []))"
    by (simp add: run_defs example_defs)
  have h4: "createFile (example_config (store_of []) create_fails)
        (fileData (JStr ''uid-1'') ''report.pdf'' ''.pdf'' ''abc123'' (JNum 4)
        (JStr ''document'') 1700000000000 ''/docs'' None)
       = Inl (Error ''database unavailable'')"
    by (simp add: example_config_def create_fails_def)
  have cp: "sha256_hex example_env (file_data (example_upload ''report.pdf'' ''%PDF''))
        @ extension_of example_env ''report.pdf'' (file_data (example_upload ''report.pdf'' ''%PDF''))
      = ''abc123.pdf''"
    by (simp add: example_defs extension_of_def)
  show ?thesis
    using h1 h2 h3 h4 saveFile_novel_create_failure [OF h1 h2 h3 h4]
    by (simp add: cp)
qed


section \<open>Size and type of an existing record\<close>

text \<open>
  C6. \<^verbatim>\<open>fileInfo?.size || fs.statSync(constPath).size\<close> reuses the existing record's
  size only when it is truthy. For a record of size \<open>0\<close> at another logical path the
  size is read from the disk at the path of the new name; when no file is there
  (the same bytes under another extension) \<^verbatim>\<open>saveFile\<close> rejects and no record is
  created, where the claim has the size \<open>0\<close> reused.
\<close>

theorem saveFile_existing_falsy_size_reads_disk:
  assumes "decodeURI E (file_name file) = Inr name"
    and "getFileByHash C (sha256_hex E (file_data file)) = Inr (Some fi)"
    and "\<not> truthy (getprop fi ''size'')"
    and "JStr (filePath_of opts) \<noteq> getprop fi ''path''"
    and "statSync (sha256_hex E (file_data file) @ extension_of E name (file_data file)) d
           = Inl err"
  shows "result (saveFile E C file opts d) = Rejected (new_Error err)
       \<and> (\<forall>r. CreateFile r \<notin> set (events (saveFile E C file opts d)))"
  using assms(3,4,5)
  by (simp add: saveFile_def Let_def saveFile_try_existing [OF assms(1,2)]
      recordOrExisting_def createRecord_def opt_prop_def log_def)

theorem saveFile_existing_falsy_size_reads_disk_witness:
  "decodeURI example_env (file_name (example_upload ''empty.md'' [])) = Inr ''empty.md''
   \<and> getFileByHash (example_config (store_of [empty_record]) create_ok)
       (sha256_hex example_env (file_data (example_upload ''empty.md'' [])))
       = Inr (Some empty_record)
   \<and> getprop empty_record ''size'' = JNum 0
   \<and> JStr (filePath_of (Some (example_options ''/notes''))) \<noteq> getprop empty_record ''path''
   \<and> result (saveFile example_env (example_config (store_of [empty_record]) create_ok)
        (example_upload ''empty.md'' []) (Some (example_options ''/notes''))
        [(''e3b0c442.txt'', 0)])
       = Rejected (Error ''Error: ENOENT: no such file or directory, stat e3b0c442.md'')
   \<and> (\<forall>r. CreateFile r \<notin> set (events (saveFile example_env
        (example_config (store_of [empty_record]) create_ok)
        (example_upload ''empty.md'' []) (Some (example_options ''/notes''))
        [(''e3b0c442.txt'', 0)])))"
proof -
  have h1: "decodeURI example_env (file_name (example_upload ''empty.md'' [])) = Inr ''empty.md''"
    by (simp add: example_env_def example_upload_def)
  have h2: "getFileByHash (example_config (store_of [empty_record]) create_ok)
       (sha256_hex example_env (file_data (example_upload ''empty.md'' [])))
       = Inr (Some empty_record)"
    by (simp add: example_defs getprop_def)
  have sz: "getprop empty_record ''size'' = JNum 0"
    by (simp add: getprop_def empty_record_def)
  have h3: "\<not> truthy (getprop empty_record ''size'')"
    by (simp add: sz)
  have h4: "JStr (filePath_of (Some (example_options ''/notes''))) \<noteq> getprop empty_record ''path''"
    by (simp add: getprop_def empty_record_def filePath_of_def example_options_def)
  have h5: "statSync (sha256_hex example_env (file_data (example_upload ''empty.md'' []))
        @ extension_of example_env ''empty.md'' (file_data (example_upload ''empty.md'' [])))
       [(''e3b0c442.txt'', 0)]
      = Inl (Error ''ENOENT: no such file or directory, stat e3b0c442.md'')"
    by (simp add: example_defs extension_of_def statSync_def)
  show ?thesis
    using h1 h2 sz h4 saveFile_existing_falsy_size_reads_disk [OF h1 h2 h3 h4 h5]
    by (simp add: new_Error_def)
qed

text \<open>Apart from falsy values the claim holds: a truthy size and type are reused.\<close>

lemma createRecord_existing_CreateFile:
  assumes "CreateFile r \<in> set (events (createRecord E C opts fp i n ext h cp (Some fi) d))"
    and "truthy (getprop fi ''size'')" and "truthy (getprop fi ''type'')"
  shows "r = fileData i n ext h (getprop fi ''size'') (getprop fi ''type'') (now E) fp
               (Option.bind opts opt_additionalData)"
  using assms
  by (auto simp add: createRecord_def opt_prop_def Let_def split: sum.splits)

lemma recordOrExisting_existing_CreateFile:
  assumes "CreateFile r \<in> set (events (recordOrExisting E C opts fp i n ext h cp (Some fi) d))"
    and "truthy (getprop fi ''size'')" and "truthy (getprop fi ''type'')"
  shows "r = fileData i n ext h (getprop fi ''size'') (getprop fi ''type'') (now E) fp
               (Option.bind opts opt_additionalData)"
proof -
  have "CreateFile r \<in> set (events (createRecord E C opts fp i n ext h cp (Some fi) d))"
    using assms(1) by (simp add: recordOrExisting_def log_def split: if_splits)
  then show ?thesis using assms(2,3) by (rule createRecord_existing_CreateFile)
qed

lemma saveFile_existing_reuses_truthy_size_type:
  assumes "getFileByHash C (sha256_hex E (file_data file)) = Inr (Some fi)"
    and "truthy (getprop fi ''size'')" and "truthy (getprop fi ''type'')"
    and "CreateFile r \<in> set (events (saveFile E C file opts d))"
    and "Option.bind opts opt_additionalData = None"
  shows "r ''size'' = Some (getprop fi ''size'') \<and> r ''type'' = Some (getprop fi ''type'')"
proof -
  have c: "CreateFile r \<in> set (events (saveFile_try E C file opts d))"
    using saveFile_events [OF assms(4)] by auto
  then obtain name where nm: "decodeURI E (file_name file) = Inr name"
    using saveFile_try_CreateFile by blast
  have "CreateFile r \<in> set (events (recordOrExisting E C opts (filePath_of opts) (id_of C opts)
          name (extension_of E name (file_data file)) (sha256_hex E (file_data file))
          (sha256_hex E (file_data file) @ extension_of E name (file_data file)) (Some fi) d))"
    using c by (simp add: saveFile_try_existing [OF nm assms(1)] log_def split: if_splits)
  from recordOrExisting_existing_CreateFile [OF this assms(2,3)]
  show ?thesis
    by (simp add: fileData_def assms(5))
qed

section \<open>deleteFileByHash\<close>

lemma find_filter: "find P xs = (case filter P xs of [] \<Rightarrow> None | x # _ \<Rightarrow> Some x)"
  by (induction xs) auto

text \<open>
  C7. In a storage root whose entries have names: when no entry has the hash as its
  stem, \<^verbatim>\<open>deleteFileByHash\<close> rejects with the not-found error and unlinks nothing;
  when some entry has, the first of them is unlinked and the call resolves.
\<close>

theorem deleteFileByHash_not_found_or_unlinked:
  assumes "[] \<notin> set (readdirSync d)"
  shows "(physicalFiles hash d = [] \<longrightarrow>
            result (deleteFileByHash C hash d)
              = Rejected (Error (''Error: File with hash '' @ hash @ '' not found in ''
                                 @ publicFolder C))
          \<and> disk (deleteFileByHash C hash d) = d
          \<and> events (deleteFileByHash C hash d) = [])
       \<and> (\<forall>f fs. physicalFiles hash d = f # fs \<longrightarrow>
            result (deleteFileByHash C hash d) = Resolved ()
          \<and> disk (deleteFileByHash C hash d) = filter (\<lambda>e. fst e \<noteq> f) d
          \<and> \<not> existsSync f (disk (deleteFileByHash C hash d))
          \<and> events (deleteFileByHash C hash d) = [UnlinkSync f])"
proof (intro conjI allI impI)
  assume "physicalFiles hash d = []"
  then have "find (\<lambda>f. split_dot_0 f = hash) (readdirSync d) = None"
    by (simp add: find_filter physicalFiles_def)
  then show "result (deleteFileByHash C hash d)
              = Rejected (Error (''Error: File with hash '' @ hash @ '' not found in ''
                                 @ publicFolder C))"
    and "disk (deleteFileByHash C hash d) = d"
    and "events (deleteFileByHash C hash d) = []"
    by (simp_all add: deleteFileByHash_def deleteFileByHash_try_def Let_def new_Error_def)
next
  fix f fs
  assume m: "physicalFiles hash d = f # fs"
  then have fnd: "find (\<lambda>f. split_dot_0 f = hash) (readdirSync d) = Some f"
    by (simp add: find_filter physicalFiles_def)
  have "f \<in> set (physicalFiles hash d)" using m by simp
  then have mem: "f \<in> set (readdirSync d)" by (simp add: physicalFiles_def)
  then have ne: "f \<noteq> []" using assms by auto
  have ex: "existsSync f d" using mem by (simp add: existsSync_def readdirSync_def)
  then have ul: "unlinkSync f d = Inr (filter (\<lambda>e. fst e \<noteq> f) d)"
    by (simp add: unlinkSync_def)
  show "result (deleteFileByHash C hash d) = Resolved ()"
    and "disk (deleteFileByHash C hash d) = filter (\<lambda>e. fst e \<noteq> f) d"
    and "events (deleteFileByHash C hash d) = [UnlinkSync f]"
    using fnd ne ul
    by (simp_all add: deleteFileByHash_def deleteFileByHash_try_def Let_def)
  then show "\<not> existsSync f (disk (deleteFileByHash C hash d))"
    using unlinkSync_gone [OF ul] by simp
qed



theorem deleteFileByHash_not_found_or_unlinked_witness:
  "[] \<notin> set (readdirSync [(''e3b0c442.txt'', 0), (''abc123.pdf'', 4), (''abc123.md'', 4)])
   \<and> physicalFiles ''ffff'' [(''e3b0c442.txt'', 0), (''abc123.pdf'', 4), (''abc123.md'', 4)] = []
   \<and> result (deleteFileByHash (example_config (store_of []) create_ok) ''ffff''
        [(''e3b0c442.txt'', 0), (''abc123.pdf'', 4), (''abc123.md'', 4)])
       = Rejected (Error ''Error: File with hash ffff not found in ./uploads'')
   \<and> disk (deleteFileByHash (example_config (store_of []) create_ok) ''ffff''
        [(''e3b0c442.txt'', 0), (''abc123.pdf'', 4), (''abc123.md'', 4)])
       = [(''e3b0c442.txt'', 0), (''abc123.pdf'', 4), (''abc123.md'', 4)]
   \<and> physicalFiles ''abc123'' [(''e3b0c442.txt'', 0), (''abc123.pdf'', 4), (''abc123.md'', 4)]
       = [''abc123.pdf'', ''abc123.md'']
   \<and> result (deleteFileByHash (example_config (store_of []) create_ok) ''abc123''
        [(''e3b0c442.txt'', 0), (''abc123.pdf'', 4), (''abc123.md'', 4)]) = Resolved ()
   \<and> disk (deleteFileByHash (example_config (store_of []) create_ok) ''abc123''
        [(''e3b0c442.txt'', 0), (''abc123.pdf'', 4), (''abc123.md'', 4)])
       = [(''e3b0c442.txt'', 0), (''abc123.md'', 4)]"
proof -
  let ?d = "[(''e3b0c442.txt'', 0::nat), (''abc123.pdf'', 4), (''abc123.md'', 4)]"
  let ?C = "example_config (store_of []) create_ok"
  have wf: "[] \<notin> set (readdirSync ?d)"
    by (simp add: readdirSync_def)
  have none: "physicalFiles ''ffff'' ?d = []"
    by (simp add: physicalFiles_def readdirSync_def split_dot_0_def)
  have two: "physicalFiles ''abc123'' ?d = [''abc123.pdf'', ''abc123.md'']"
    by (simp add: physicalFiles_def readdirSync_def split_dot_0_def)
  have pf: "publicFolder ?C = ''./uploads''"
    by (simp add: example_config_def)
  show ?thesis
    using wf none two
      deleteFileByHash_not_found_or_unlinked [OF wf, of "''ffff''" ?C]
      deleteFileByHash_not_found_or_unlinked [OF wf, of "''abc123''" ?C]
    by (simp add: pf)
qed

section \<open>Additional data and defaults\<close>

text \<open>
  C9. Every key of \<^verbatim>\<open>options.additionalData\<close>, a core field's name included, has the
  additional data's value in the record passed to \<^verbatim>\<open>createFile\<close>.
\<close>

theorem saveFile_additionalData_overrides:
  assumes "opts = Some ops" and "opt_additionalData ops = Some ad" and "ad k = Some v"
    and "CreateFile r \<in> set (events (saveFile E C file opts d))"
  shows "r k = Some v"
proof -
  from saveFile_CreateFile [OF assms(4)]
  obtain name sz ty where
    "r = fileData (id_of C opts) name (extension_of E name (file_data file))
           (sha256_hex E (file_data file)) sz ty (now E) (filePath_of opts)
           (Option.bind opts opt_additionalData)"
    by blast
  then show ?thesis
    using assms(1,2,3) by (simp add: fileData_def map_add_find_right)
qed

theorem saveFile_additionalData_overrides_witness:
  "opt_additionalData override_options = Some [''id'' \<mapsto> JStr ''forced'', ''size'' \<mapsto> JNum 0]
   \<and> [''id'' \<mapsto> JStr ''forced'', ''size'' \<mapsto> JNum 0] ''id'' = Some (JStr ''forced'')
   \<and> CreateFile (fileData (JStr ''wanted'') ''report.pdf'' ''.pdf'' ''abc123'' (JNum 4)
        (JStr ''document'') 1700000000000 ''/docs''
        (Some [''id'' \<mapsto> JStr ''forced'', ''size'' \<mapsto> JNum 0]))
       \<in> set (events (saveFile example_env (example_config (store_of []) create_ok)
            (example_upload ''report.pdf'' ''%PDF'') (Some override_options) []))
   \<and> fileData (JStr ''wanted'') ''report.pdf'' ''.pdf'' ''abc123'' (JNum 4)
        (JStr ''document'') 1700000000000 ''/docs''
        (Some [''id'' \<mapsto> JStr ''forced'', ''size'' \<mapsto> JNum 0]) ''id'' = Some (JStr ''forced'')"
proof -
  let ?ad = "[''id'' \<mapsto> JStr ''forced'', ''size'' \<mapsto> JNum 0]"
  let ?r = "fileData (JStr ''wanted'') ''report.pdf'' ''.pdf'' ''abc123'' (JNum 4)
        (JStr ''document'') 1700000000000 ''/docs'' (Some ?ad)"
  have h2: "opt_additionalData override_options = Some ?ad"
    by (simp add: override_options_def)
  have h3: "?ad ''id'' = Some (JStr ''forced'')"
    by simp
  have h4: "CreateFile ?r
       \<in> set (events (saveFile example_env (example_config (store_of []) create_ok)
            (example_upload ''report.pdf'' ''%PDF'') (Some override_options) []))"
    by (simp add: run_defs example_defs override_options_def)
  show ?thesis
    using h2 h3 h4 saveFile_additionalData_overrides [OF refl h2 h3 h4]
    by simp
qed


text \<open>
  C10. An \<^verbatim>\<open>options.id\<close> of \<open>0\<close> or \<^verbatim>\<open>""\<close> is replaced by the value of \<^verbatim>\<open>uid()\<close>, and an
  \<^verbatim>\<open>options.filePath\<close> of \<^verbatim>\<open>""\<close> by \<^verbatim>\<open>"/"\<close>; these are the id and path of the record
  passed to \<^verbatim>\<open>createFile\<close> (unless the additional data names them, see C9).
\<close>

theorem saveFile_falsy_id_and_filePath_defaults:
  "(opt_id ops = Some (JNum 0) \<or> opt_id ops = Some (JStr []) \<longrightarrow> id_of C (Some ops) = uid C)
   \<and> (opt_filePath ops = Some [] \<longrightarrow> filePath_of (Some ops) = ''/'')
   \<and> (\<forall>r. CreateFile r \<in> set (events (saveFile E C file (Some ops) d)) \<longrightarrow>
          (case opt_additionalData ops of
             None \<Rightarrow> True
           | Some ad \<Rightarrow> ad ''id'' = None \<and> ad ''path'' = None) \<longrightarrow>
          r ''id'' = Some (id_of C (Some ops))
          \<and> r ''path'' = Some (JStr (filePath_of (Some ops))))"
proof (intro conjI allI impI)
  assume "opt_id ops = Some (JNum 0) \<or> opt_id ops = Some (JStr [])"
  then show "id_of C (Some ops) = uid C"
    by (auto simp add: id_of_def)
next
  assume "opt_filePath ops = Some []"
  then show "filePath_of (Some ops) = ''/''"
    by (simp add: filePath_of_def)
next
  fix r
  assume c: "CreateFile r \<in> set (events (saveFile E C file (Some ops) d))"
    and a: "case opt_additionalData ops of None \<Rightarrow> True
            | Some ad \<Rightarrow> ad ''id'' = None \<and> ad ''path'' = None"
  from saveFile_CreateFile [OF c]
  obtain name sz ty where
    r: "r = fileData (id_of C (Some ops)) name (extension_of E name (file_data file))
           (sha256_hex E (file_data file)) sz ty (now E) (filePath_of (Some ops))
           (Option.bind (Some ops) opt_additionalData)"
    by blast
  show "r ''id'' = Some (id_of C (Some ops))"
    using a by (simp add: r fileData_def map_add_def split: option.splits)
  show "r ''path'' = Some (JStr (filePath_of (Some ops)))"
    using a by (simp add: r fileData_def map_add_def split: option.splits)
qed

theorem saveFile_falsy_id_and_filePath_defaults_witness:
  "opt_id falsy_options = Some (JNum 0)
   \<and> opt_filePath falsy_options = Some []
   \<and> opt_additionalData falsy_options = None
   \<and> CreateFile (fileData (JStr ''uid-1'') ''report.pdf'' ''.pdf'' ''abc123'' (JNum 4)
        (JStr ''document'') 1700000000000 ''/'' None)
       \<in> set (events (saveFile example_env (example_config (store_of []) create_ok)
            (example_upload ''report.pdf'' ''%PDF'') (Some falsy_options) []))
   \<and> id_of (example_config (store_of []) create_ok) (Some falsy_options) = JStr ''uid-1''
   \<and> filePath_of (Some falsy_options) = ''/''
   \<and> fileData (JStr ''uid-1'') ''report.pdf'' ''.pdf'' ''abc123'' (JNum 4)
        (JStr ''document'') 1700000000000 ''/'' None ''id'' = Some (JStr ''uid-1'')
   \<and> fileData (JStr ''uid-1'') ''report.pdf'' ''.pdf'' ''abc123'' (JNum 4)
        (JStr ''document'') 1700000000000 ''/'' None ''path'' = Some (JStr ''/'')"
proof -
  let ?C = "example_config (store_of []) create_ok"
  let ?r = "fileData (JStr ''uid-1'') ''report.pdf'' ''.pdf'' ''abc123'' (JNum 4)
        (JStr ''document'') 1700000000000 ''/'' None"
  have h1: "opt_id falsy_options = Some (JNum 0)"
    and h2: "opt_filePath falsy_options = Some []"
    and h3: "opt_additionalData falsy_options = None"
    by (simp_all add: falsy_options_def)
  have h4: "CreateFile ?r
       \<in> set (events (saveFile example_env ?C
            (example_upload ''report.pdf'' ''%PDF'') (Some falsy_options) []))"
    by (simp add: run_defs example_defs falsy_options_def)
  have u: "uid ?C = JStr ''uid-1''"
    by (simp add: example_config_def)
  show ?thesis
    using h1 h2 h3 h4
      saveFile_falsy_id_and_filePath_defaults [of falsy_options ?C example_env
        "example_upload ''report.pdf'' ''%PDF''" "[]"]
    by (auto simp add: u)
qed

end
